theory Spec2Isabelle
  imports Main "HOL-Library.Log_Nat"
begin

text \<open>
  The backlight manager: a daemon that applies brightness requests sent through a FIFO
  and follows an ambient light sensor, and the client invocations that talk to it. The
  model follows the daemon version of the program, the C text in \<^verbatim>\<open>src/Makefile\<close> after the
  build rules; the line numbers given below are lines of that file. The older
  \<^verbatim>\<open>src/backlight_manager.c\<close> has the same \<open>read_file\<close> and \<open>set_backlight_brightness\<close> and
  no daemon.
\<close>

section \<open>The C values the program computes with\<close>

subsection \<open>\<open>int\<close>\<close>

text \<open>
  A C \<open>int\<close> is a mathematical integer between \<open>INT_MIN\<close> and \<open>INT_MAX\<close> (32 bits).
  Signed overflow and an out-of-range conversion are undefined in C: the model stops
  there with \<open>Undefined\<close> instead of inventing a value.
\<close>

definition INT_MIN :: int where
  "INT_MIN = - 2147483648"

definition INT_MAX :: int where
  "INT_MAX = 2147483647"

definition is_int :: "int \<Rightarrow> bool" where
  "is_int n \<longleftrightarrow> INT_MIN \<le> n \<and> n \<le> INT_MAX"

subsection \<open>\<open>double\<close>\<close>

text \<open>
  A \<open>double\<close> is an IEEE 754 binary64 number: a finite value is the rational it
  denotes, and the infinities and NaN are one value \<open>NonFin\<close> (the program only
  multiplies doubles and converts them to \<open>int\<close>, and both treat the three alike).
  Every operation rounds its exact result once, to nearest with ties to even (no excess
  precision, as on x86-64 and AArch64).
\<close>

datatype double = Fin rat | NonFin

text \<open>\<open>ilog2 a\<close> is the binary exponent of a positive rational: \<open>2 ^ ilog2 a \<le> a < 2 ^ (ilog2 a + 1)\<close>.\<close>

definition ilog2 :: "rat \<Rightarrow> int" where
  "ilog2 a = (if 1 \<le> a then bitlen \<lfloor>a\<rfloor> - 1 else - bitlen (\<lceil>1 / a\<rceil> - 1))"

text \<open>Rounding a non-negative rational to the nearest integer, a tie going to the even one.\<close>

definition rne :: "rat \<Rightarrow> int" where
  "rne z = (let f = \<lfloor>z\<rfloor>; r = z - of_int f in
     if r < 1 / 2 then f else if 1 / 2 < r then f + 1 else if even f then f else f + 1)"

text \<open>
  \<open>fl x\<close> rounds the exact result \<open>x\<close> to binary64. The magnitude is scaled so that
  its significand is an integer of 53 bits (fewer below the smallest normal exponent
  \<open>-1022\<close>), rounded, and scaled back. The significand lies between \<open>2 ^ 52\<close> and \<open>2 ^ 53\<close>,
  so the result reaches \<open>2 ^ 1024\<close>, and overflows, exactly when the exponent is above
  1023 or the significand was rounded up to \<open>2 ^ 53\<close> at exponent 1023.
\<close>

definition fl :: "rat \<Rightarrow> double" where
  "fl x = (if x = 0 then Fin 0 else
     let a = \<bar>x\<bar>;
         e = max (ilog2 a) (- 1022);
         u = power_int 2 (e - 52);
         m = rne (a / u)
     in if 1024 \<le> e \<or> (e = 1023 \<and> m = 2 ^ 53) then NonFin
        else Fin (sgn x * (of_int m * u)))"

text \<open>The conversion of an \<open>int\<close> to \<open>double\<close> is exact: 32 bits fit in the significand.\<close>

definition int_to_double :: "int \<Rightarrow> double" where
  "int_to_double n = Fin (of_int n)"

fun ddiv :: "double \<Rightarrow> double \<Rightarrow> double" where
  "ddiv (Fin a) (Fin b) = (if b = 0 then NonFin else fl (a / b))"
| "ddiv _ _ = NonFin"

fun dmul :: "double \<Rightarrow> double \<Rightarrow> double" where
  "dmul (Fin a) (Fin b) = fl (a * b)"
| "dmul _ _ = NonFin"

text \<open>The cast \<open>(int)\<close> drops the fraction (towards zero).\<close>

definition trunc :: "rat \<Rightarrow> int" where
  "trunc r = (if 0 \<le> r then \<lfloor>r\<rfloor> else - \<lfloor>- r\<rfloor>)"

section \<open>The world outside the process\<close>

text \<open>
  A file read by \<open>fopen\<close> and \<open>fscanf("%d")\<close>: it cannot be opened, or it holds no
  number, or it holds one.
\<close>

datatype sysfile = Missing | Garbage | Holds int

datatype signal = SIGTERM | SIGINT | SIGKILL

datatype fork_outcome = ForkFailed | InParent | InChild

text \<open>\<open>typedef struct { int brightness_adjustment; bool ambient_mode; } PipeData\<close>\<close>

record PipeData =
  brightness_adjustment :: int
  ambient_mode :: bool

text \<open>The configuration record. \<open>min_brightness\<close> is a percentage until \<open>main\<close> converts it.\<close>

record ConfigData =
  sensor_path :: string
  sensor_file :: string
  sensor_file_path :: string
  keyboard_backlight_path :: string
  screen_backlight_path :: string
  brightness_factor :: double
  update_rate :: int
  min_brightness :: int

text \<open>
  Everything the program reads or changes outside its own variables.
  \<^item> \<open>pid_file\<close> is \<^verbatim>\<open>/tmp/backlight_manager.pid\<close>; \<open>fifo_node\<close> says that
    \<^verbatim>\<open>/tmp/backlight_manager.pipe\<close> exists, \<open>fifo_reader\<close> and \<open>fifo_writer\<close> that some
    process holds it open for reading or writing, \<open>fifo_data\<close> is what was written to it
    and not read yet.
  \<^item> \<open>max_brightness_file\<close> and \<open>actual_brightness_file\<close> are the two files read under
    \<open>screen_backlight_path\<close>, \<open>sensor_value_file\<close> the sensor's file;
    \<open>brightness_file\<close> lists the values written to \<^verbatim>\<open>brightness\<close>, oldest first, and
    \<open>brightness_writable\<close> says that it can be opened for writing.
  \<^item> \<open>config_file\<close> is what \<open>read_config_data\<close> returns, \<open>None\<close> when it finds no sensor.
  \<^item> \<open>fork_result\<close>, \<open>setsid_ok\<close>, \<open>pid_file_creatable\<close>, \<open>malloc_ok\<close>, \<open>own_pid\<close> and
    \<open>alive\<close> (the processes \<open>kill\<close> can reach) are the answers of the system calls.
  \<^item> \<open>handled\<close> are the signals with \<open>signal_handler\<close> installed, \<open>signals_sent\<close> the
    signals delivered by \<open>kill\<close>, \<open>out\<close> the lines printed, \<open>stdio_null\<close> says that the
    standard streams lead to \<^verbatim>\<open>/dev/null\<close>, \<open>slept\<close> counts the seconds slept.
\<close>

record world =
  pid_file :: sysfile
  fifo_node :: bool
  fifo_reader :: bool
  fifo_writer :: bool
  fifo_data :: "PipeData list"
  max_brightness_file :: sysfile
  actual_brightness_file :: sysfile
  sensor_value_file :: sysfile
  brightness_file :: "int list"
  brightness_writable :: bool
  config_file :: "ConfigData option"
  fork_result :: fork_outcome
  setsid_ok :: bool
  pid_file_creatable :: bool
  malloc_ok :: bool
  own_pid :: int
  alive :: "int list"
  handled :: "signal list"
  signals_sent :: "(int \<times> signal) list"
  out :: "string list"
  stdio_null :: bool
  slept :: nat

text \<open>
  How a call ends when it does not return: the process exits with a status (in the world
  it leaves behind), it is killed by a signal it does not handle, C leaves the behaviour
  undefined, or the call never returns.
\<close>

datatype stop = Exit int world | Killed world | Undefined | Blocked

text \<open>\<open>(int)d\<close> is defined only for a finite \<open>d\<close> whose integer part is an \<open>int\<close>.\<close>

definition cast_int :: "double \<Rightarrow> stop + int" where
  "cast_int d = (case d of
      NonFin \<Rightarrow> Inl Undefined
    | Fin r \<Rightarrow> if is_int (trunc r) then Inr (trunc r) else Inl Undefined)"

text \<open>\<open>a + b\<close> on \<open>int\<close>.\<close>

definition add_int :: "int \<Rightarrow> int \<Rightarrow> stop + int" where
  "add_int a b = (if is_int (a + b) then Inr (a + b) else Inl Undefined)"

text \<open>\<open>(int)((max_screen_brightness / 100.0) * value)\<close>, as in \<open>adjust_brightness\<close> and \<open>main\<close>.\<close>

definition scale_percent :: "int \<Rightarrow> int \<Rightarrow> stop + int" where
  "scale_percent max_screen_brightness v =
     cast_int (dmul (ddiv (int_to_double max_screen_brightness) (Fin 100)) (int_to_double v))"

text \<open>\<open>perror\<close> and \<open>printf\<close>: a line is seen unless the streams lead to \<^verbatim>\<open>/dev/null\<close>.\<close>

definition say :: "string \<Rightarrow> world \<Rightarrow> world" where
  "say msg w = (if stdio_null w then w else w\<lparr>out := out w @ [msg]\<rparr>)"

section \<open>The functions of the program\<close>

text \<open>
  \<open>read_file\<close> (lines 198-212): \<open>exit(EXIT_FAILURE)\<close> when the file cannot be opened; a file with no
  number leaves the local \<open>brightness\<close> uninitialised, and its value is not defined;
  nor is the result of \<open>fscanf\<close> on a number that is no \<open>int\<close>.
\<close>

definition read_file :: "sysfile \<Rightarrow> world \<Rightarrow> stop + int" where
  "read_file f w = (case f of
      Missing \<Rightarrow> Inl (Exit 1 (say ''Error reading file'' w))
    | Garbage \<Rightarrow> Inl Undefined
    | Holds n \<Rightarrow> if is_int n then Inr n else Inl Undefined)"

text \<open>\<open>set_backlight_brightness\<close> (lines 215-230), and the clamp at its head.\<close>

definition clamp_brightness :: "int \<Rightarrow> int \<Rightarrow> int" where
  "clamp_brightness brightness max_brightness =
     (if brightness < 1 then 1
      else if brightness > max_brightness then max_brightness
      else brightness)"

definition set_backlight_brightness :: "int \<Rightarrow> int \<Rightarrow> world \<Rightarrow> stop + world" where
  "set_backlight_brightness brightness max_brightness w =
     (let b = clamp_brightness brightness max_brightness in
      if \<not> brightness_writable w
      then Inl (Exit 1 (say ''Error write to brightness file'' w))
      else Inr (w\<lparr>brightness_file := brightness_file w @ [b]\<rparr>))"

text \<open>
  \<open>adjust_brightness\<close> (lines 254-258, ``adjust brightness in percent''): the current brightness is read
  first, then the argument of \<open>set_backlight_brightness\<close> is computed.
\<close>

definition adjust_brightness :: "int \<Rightarrow> int \<Rightarrow> ConfigData \<Rightarrow> world \<Rightarrow> stop + world" where
  "adjust_brightness v max_screen_brightness config w =
     (case read_file (actual_brightness_file w) w of
        Inl e \<Rightarrow> Inl e
      | Inr current_screen_brightness \<Rightarrow>
          (case scale_percent max_screen_brightness v of
             Inl e \<Rightarrow> Inl e
           | Inr t \<Rightarrow>
               (case add_int current_screen_brightness t of
                  Inl e \<Rightarrow> Inl e
                | Inr b \<Rightarrow> set_backlight_brightness b max_screen_brightness w)))"

text \<open>\<open>remove(path)\<close> of the two nodes: \<open>True\<close> when the node was there.\<close>

definition remove_pid_file :: "world \<Rightarrow> bool \<times> world" where
  "remove_pid_file w = (pid_file w \<noteq> Missing, w\<lparr>pid_file := Missing\<rparr>)"

definition remove_fifo :: "world \<Rightarrow> bool \<times> world" where
  "remove_fifo w = (fifo_node w, w\<lparr>fifo_node := False\<rparr>)"

text \<open>\<open>signal_handler\<close> (lines 86-91): removes the PID file and exits with status 0.\<close>

definition signal_handler :: "signal \<Rightarrow> world \<Rightarrow> stop" where
  "signal_handler sig w =
     (case remove_pid_file w of
        (removed, w') \<Rightarrow>
          Exit 0 (if removed then w' else say ''Error removing the PID file'' w'))"

text \<open>
  A signal reaching the process: \<open>signal_handler\<close> runs when it was installed for that
  signal, otherwise the process is killed as it stands.
\<close>

definition deliver_signal :: "signal \<Rightarrow> world \<Rightarrow> stop" where
  "deliver_signal sig w = (if sig \<in> set (handled w) then signal_handler sig w else Killed w)"

text \<open>
  \<open>start_daemon\<close> (lines 261-307), followed in the process where \<open>fork\<close> returns: the parent exits with
  status 0 and the child goes on. The child's standard streams are closed and reopened on
  \<^verbatim>\<open>/dev/null\<close> before the handlers are installed and the PID file is created.
\<close>

definition start_daemon :: "world \<Rightarrow> stop + world" where
  "start_daemon w =
     (case fork_result w of
        ForkFailed \<Rightarrow> Inl (Exit 1 (say ''Error forking the process'' w))
      | InParent \<Rightarrow> Inl (Exit 0 w)
      | InChild \<Rightarrow>
          if \<not> setsid_ok w then Inl (Exit 1 (say ''Error creating a new session'' w))
          else
            let w1 = w\<lparr>stdio_null := True\<rparr>;
                w2 = w1\<lparr>handled := SIGINT # SIGTERM # handled w1\<rparr>
            in if \<not> pid_file_creatable w2
               then Inl (Exit 1 (say ''Error creating the PID file'' w2))
               else Inr (w2\<lparr>pid_file := Holds (own_pid w2), fifo_node := True\<rparr>))"

text \<open>\<open>open_pipe\<close> (lines 309-318).\<close>

definition open_pipe :: "world \<Rightarrow> stop + world" where
  "open_pipe w =
     (if \<not> fifo_node w then Inl (Exit 1 (say ''Error opening the named pipe'' w))
      else Inr (w\<lparr>fifo_reader := True\<rparr>))"

text \<open>
  \<open>stop_daemon\<close> (lines 320-355): \<open>kill\<close> succeeds on a process that is there; both nodes are removed
  whenever the PID file could be opened.
\<close>

definition stop_daemon :: "world \<Rightarrow> world" where
  "stop_daemon w =
     (case pid_file w of
        Missing \<Rightarrow> say ''Error opening the PID file'' w
      | content \<Rightarrow>
          let w1 = (case content of
                      Holds pid \<Rightarrow>
                        if pid \<notin> set (alive w)
                        then say ''Error sending the termination signal to the daemon'' w
                        else say ''Termination signal sent to the daemon''
                               (w\<lparr>signals_sent := signals_sent w @ [(pid, SIGTERM)]\<rparr>)
                    | _ \<Rightarrow> say ''Invalid PID file content'' w);
              w2 = (case remove_pid_file w1 of
                      (removed, w') \<Rightarrow>
                        if removed then w' else say ''Error removing the PID file'' w');
              w3 = (case remove_fifo w2 of
                      (removed, w') \<Rightarrow>
                        if removed then w' else say ''Error removing the PID file'' w')
          in w3)"

text \<open>
  \<open>write_fifo\<close> (lines 357-374): opening a FIFO for writing fails when the node is missing and waits as
  long as no process has it open for reading; one record is written.
\<close>

definition write_fifo :: "int \<Rightarrow> bool \<Rightarrow> world \<Rightarrow> stop + world" where
  "write_fifo v ambient w =
     (if \<not> fifo_node w then Inl (Exit 1 (say ''Error opening the named pipe'' w))
      else if \<not> fifo_reader w then Inl Blocked
      else
        let data = \<lparr>brightness_adjustment = v, ambient_mode = ambient\<rparr>
        in Inr (w\<lparr>fifo_data := fifo_data w @ [data]\<rparr>))"

text \<open>
  What \<open>read\<close> returns on the FIFO opened with \<open>O_NONBLOCK\<close>: the size of one record when
  one is waiting, \<open>-1\<close> when none is waiting and a writer is connected, 0 when no writer
  is connected.
\<close>

definition read_fd :: "world \<Rightarrow> int \<times> PipeData option \<times> world" where
  "read_fd w =
     (case fifo_data w of
        m # ms \<Rightarrow> (8, Some m, w\<lparr>fifo_data := ms\<rparr>)
      | [] \<Rightarrow> (if fifo_writer w then - 1 else 0, None, w))"

text \<open>\<open>read_fifo\<close> (lines 376-397): \<open>None\<close> is the \<open>NULL\<close> it returns.\<close>

definition read_fifo :: "world \<Rightarrow> PipeData option \<times> world" where
  "read_fifo w =
     (if \<not> malloc_ok w then (None, say ''Error allocating memory for PipeData'' w)
      else
        case read_fd w of
          (bytes_read, v, w') \<Rightarrow>
            if bytes_read < 0 then (None, say ''Error reading from the named pipe'' w')
            else if bytes_read = 0 then (None, w')
            else (v, w'))"

subsection \<open>\<open>main\<close> (lines 399-499)\<close>

text \<open>One value for each thing \<open>getopt_long\<close> returns; \<open>OptSet\<close> carries \<open>atoi(optarg)\<close>.\<close>

datatype cli_option =
  OptHelp | OptAmbient | OptDaemon | OptKill | OptPrintStatus | OptSet int | OptUnknown

text \<open>
  The local variables of \<open>main\<close>, under their names with \<open>v_\<close> in front (two of the names
  are fields of \<open>PipeData\<close> as well).
\<close>

record locals =
  v_ambient_mode :: bool
  v_brightness_adjustment :: int
  v_daemon_mode :: bool
  v_print_status :: bool
  v_config :: ConfigData
  v_max_screen_brightness :: int

text \<open>
  The \<open>while\<close> loop over the options (lines 422-449). \<open>pid_file_open\<close> is \<open>pid_file != NULL\<close>, the result of
  the \<open>fopen\<close> before the loop.
\<close>

fun parse_options :: "bool \<Rightarrow> cli_option list \<Rightarrow> locals \<Rightarrow> world \<Rightarrow> stop + locals \<times> world" where
  "parse_options pid_file_open [] v w = Inr (v, w)"
| "parse_options pid_file_open (OptHelp # rest) v w = Inl (Exit 0 (say ''Usage: backlight_manager [OPTIONS]'' w))"
| "parse_options pid_file_open (OptAmbient # rest) v w =
     parse_options pid_file_open rest (v\<lparr>v_ambient_mode := True\<rparr>) w"
| "parse_options pid_file_open (OptDaemon # rest) v w =
     (if \<not> pid_file_open
      then (case start_daemon w of
              Inl e \<Rightarrow> Inl e
            | Inr w' \<Rightarrow> parse_options pid_file_open rest (v\<lparr>v_daemon_mode := True\<rparr>) w')
      else parse_options pid_file_open rest (v\<lparr>v_daemon_mode := True\<rparr>) w)"
| "parse_options pid_file_open (OptKill # rest) v w = Inl (Exit 0 (stop_daemon w))"
| "parse_options pid_file_open (OptPrintStatus # rest) v w =
     parse_options pid_file_open rest (v\<lparr>v_print_status := True\<rparr>) w"
| "parse_options pid_file_open (OptSet n # rest) v w =
     parse_options pid_file_open rest (v\<lparr>v_brightness_adjustment := n\<rparr>) w"
| "parse_options pid_file_open (OptUnknown # rest) v w = Inl (Exit 1 (say ''Unknown option'' w))"

text \<open>
  The body of \<open>while (daemon_mode)\<close> (lines 472-496), in its four steps. First the
  message is read and taken over (lines 473-484).
\<close>

definition loop_read :: "locals \<Rightarrow> world \<Rightarrow> locals \<times> world" where
  "loop_read v w =
     (case read_fifo w of
        (None, w') \<Rightarrow> (v, w')
      | (Some data, w') \<Rightarrow>
          let v1 = v\<lparr>v_brightness_adjustment := brightness_adjustment data\<rparr>;
              v2 = (if ambient_mode data
                    then (if v_ambient_mode v1
                          then v1\<lparr>v_ambient_mode := \<not> ambient_mode data\<rparr>
                          else v1\<lparr>v_ambient_mode := ambient_mode data\<rparr>)
                    else v1)
          in (v2, w'))"

text \<open>\<open>if (brightness_adjustment != 0)\<close> (lines 485-488).\<close>

definition loop_adjust :: "locals \<Rightarrow> world \<Rightarrow> stop + locals \<times> world" where
  "loop_adjust v w =
     (if v_brightness_adjustment v \<noteq> 0
      then (case adjust_brightness (v_brightness_adjustment v) (v_max_screen_brightness v)
                   (v_config v) w of
              Inl e \<Rightarrow> Inl e
            | Inr w' \<Rightarrow> Inr (v\<lparr>v_brightness_adjustment := 0\<rparr>, w'))
      else Inr (v, w))"

text \<open>\<open>if (ambient_mode)\<close> (lines 489-494).\<close>

definition loop_ambient :: "locals \<Rightarrow> world \<Rightarrow> stop + world" where
  "loop_ambient v w =
     (if v_ambient_mode v
      then (case read_file (sensor_value_file w) w of
              Inl e \<Rightarrow> Inl e
            | Inr illumination \<Rightarrow>
                (case cast_int (dmul (int_to_double illumination)
                                  (brightness_factor (v_config v))) of
                   Inl e \<Rightarrow> Inl e
                 | Inr tmp_backlight_value \<Rightarrow>
                     let backlight_value =
                           (if tmp_backlight_value > min_brightness (v_config v)
                            then tmp_backlight_value else min_brightness (v_config v))
                     in set_backlight_brightness backlight_value (v_max_screen_brightness v) w))
      else Inr w)"

text \<open>\<open>sleep(config.update_rate)\<close> (line 495): the argument is converted to \<open>unsigned int\<close>.\<close>

definition sleep :: "int \<Rightarrow> world \<Rightarrow> world" where
  "sleep seconds w = w\<lparr>slept := slept w + nat (seconds mod 2 ^ 32)\<rparr>"

definition loop_body :: "locals \<Rightarrow> world \<Rightarrow> stop + locals \<times> world" where
  "loop_body v w =
     (case loop_read v w of
        (v1, w1) \<Rightarrow>
          (case loop_adjust v1 w1 of
             Inl e \<Rightarrow> Inl e
           | Inr (v2, w2) \<Rightarrow>
               (case loop_ambient v2 w2 of
                  Inl e \<Rightarrow> Inl e
                | Inr w3 \<Rightarrow> Inr (v2, sleep (update_rate (v_config v2)) w3))))"

text \<open>
  The loop never ends by itself. \<open>run_loop\<close> is a run of as many iterations as the list
  is long: each function in the list is what happens to the world during the sleep that
  ends an iteration (clients write, the device and the sensor change). It returns what
  \<open>read_fifo\<close> returned in each iteration, in order.
\<close>

fun run_loop :: "(world \<Rightarrow> world) list \<Rightarrow> locals \<Rightarrow> world
    \<Rightarrow> stop + locals \<times> world \<times> PipeData option list" where
  "run_loop [] v w = Inr (v, w, [])"
| "run_loop (during_sleep # rest) v w =
     (case loop_body v w of
        Inl e \<Rightarrow> Inl e
      | Inr (v', w') \<Rightarrow>
          (case run_loop rest v' (during_sleep w') of
             Inl e \<Rightarrow> Inl e
           | Inr (v'', w'', reads) \<Rightarrow> Inr (v'', w'', fst (read_fifo w) # reads)))"

text \<open>
  \<open>main\<close> from the test of \<open>pid_file\<close> on (lines 462-472): the direct adjustment when no daemon was
  found, the message to the daemon when one was, and the entry into the loop.
\<close>

definition main_rest :: "bool \<Rightarrow> locals \<Rightarrow> world \<Rightarrow> stop + locals \<times> world" where
  "main_rest pid_file_open v w =
     (case (if \<not> pid_file_open
            then (if v_brightness_adjustment v \<noteq> 0
                  then adjust_brightness (v_brightness_adjustment v)
                         (v_max_screen_brightness v) (v_config v) w
                  else Inr w)
            else if \<not> v_daemon_mode v
            then write_fifo (v_brightness_adjustment v) (v_ambient_mode v) w
            else Inr w) of
        Inl e \<Rightarrow> Inl e
      | Inr w' \<Rightarrow> if v_daemon_mode v then Inr (v, w') else Inl (Exit 0 w'))"

text \<open>
  \<open>main\<close> up to the loop (lines 399-461): \<open>Inl (Exit c w)\<close> when the process ends there, \<open>Inr\<close> with the
  variables and the world in which the loop is entered.
\<close>

definition main :: "cli_option list \<Rightarrow> world \<Rightarrow> stop + locals \<times> world" where
  "main opts w =
     (case config_file w of
        None \<Rightarrow> Inl (Exit 1 (say ''Sensor file not found'' w))
      | Some config \<Rightarrow>
          (let pid_file_open = (pid_file w \<noteq> Missing);
               v0 = \<lparr>v_ambient_mode = False, v_brightness_adjustment = 0,
                     v_daemon_mode = False, v_print_status = False,
                     v_config = config, v_max_screen_brightness = 0\<rparr>
           in (case parse_options pid_file_open opts v0 w of
                 Inl e \<Rightarrow> Inl e
               | Inr (v, w1) \<Rightarrow>
                   (if v_print_status v then Inl (Exit 0 (say ''Backlight Manager Config:'' w1))
                    else
                      (case (if v_daemon_mode v then open_pipe w1 else Inr w1) of
                         Inl e \<Rightarrow> Inl e
                       | Inr w2 \<Rightarrow>
                           (case read_file (max_brightness_file w2) w2 of
                              Inl e \<Rightarrow> Inl e
                            | Inr max_screen_brightness \<Rightarrow>
                                (case scale_percent max_screen_brightness
                                        (min_brightness (v_config v)) of
                                   Inl e \<Rightarrow> Inl e
                                 | Inr m \<Rightarrow> main_rest pid_file_open
                                     (v\<lparr>v_config := (v_config v)\<lparr>min_brightness := m\<rparr>,
                                        v_max_screen_brightness := max_screen_brightness\<rparr>)
                                     w2)))))))"

section \<open>Worlds and variables to run the program in\<close>

text \<open>
  The configuration \<open>update_rate=1\<close>, \<open>brightness_factor=2.0\<close>, \<open>min_brightness=10\<close>.
\<close>

definition sample_config :: ConfigData where
  "sample_config =
     \<lparr>sensor_path = ''/sys/bus/iio/devices'', sensor_file = ''in_illuminance_raw'',
      sensor_file_path = ''/sys/bus/iio/devices/iio:device0'',
      keyboard_backlight_path = ''/sys/class/leds/kbd_backlight'',
      screen_backlight_path = ''/sys/class/backlight/intel_backlight'',
      brightness_factor = Fin 2, update_rate = 1, min_brightness = 10\<rparr>"

text \<open>
  A machine with a daemon running as process 4242: both nodes exist, the daemon reads the
  FIFO, the screen is at 50 of 100 and the sensor reads 3.
\<close>

definition daemon_world :: world where
  "daemon_world =
     \<lparr>pid_file = Holds 4242, fifo_node = True, fifo_reader = True, fifo_writer = False,
      fifo_data = [], max_brightness_file = Holds 100, actual_brightness_file = Holds 50,
      sensor_value_file = Holds 3, brightness_file = [], brightness_writable = True,
      config_file = Some sample_config, fork_result = InChild, setsid_ok = True,
      pid_file_creatable = True, malloc_ok = True, own_pid = 4243, alive = [4242],
      handled = [], signals_sent = [], out = [], stdio_null = False, slept = 0\<rparr>"

text \<open>The same machine with no daemon: neither node exists.\<close>

definition fresh_world :: world where
  "fresh_world = daemon_world\<lparr>pid_file := Missing, fifo_node := False, fifo_reader := False,
     alive := []\<rparr>"

text \<open>The variables of a daemon with nothing to do.\<close>

definition idle_locals :: locals where
  "idle_locals =
     \<lparr>v_ambient_mode = False, v_brightness_adjustment = 0, v_daemon_mode = True,
      v_print_status = False, v_config = sample_config, v_max_screen_brightness = 100\<rparr>"

text \<open>Whether what \<open>read_fifo\<close> returned asks for ambient mode to be flipped.\<close>

definition toggles :: "PipeData option \<Rightarrow> bool" where
  "toggles r = (case r of None \<Rightarrow> False | Some data \<Rightarrow> ambient_mode data)"

text \<open>Three messages: ambient mode with 10 percent more, 10 percent less, and nothing.\<close>

definition three_messages :: "PipeData list" where
  "three_messages =
     [\<lparr>brightness_adjustment = 10, ambient_mode = True\<rparr>,
      \<lparr>brightness_adjustment = - 10, ambient_mode = False\<rparr>,
      \<lparr>brightness_adjustment = 0, ambient_mode = False\<rparr>]"

text \<open>The world in which the child of \<open>start_daemon\<close> goes on, started from \<open>fresh_world\<close>.\<close>

definition started_world :: world where
  "started_world = fresh_world\<lparr>stdio_null := True, handled := [SIGINT, SIGTERM],
     pid_file := Holds 4243, fifo_node := True\<rparr>"

text \<open>
  The options of a plain request, \<^verbatim>\<open>-a\<close> and \<^verbatim>\<open>-s n\<close>, and the message they make of a
  record: \<^verbatim>\<open>-a\<close> sets its flag, each \<^verbatim>\<open>-s n\<close> replaces its adjustment.
\<close>

fun plain_request :: "cli_option \<Rightarrow> bool" where
  "plain_request OptAmbient = True"
| "plain_request (OptSet n) = True"
| "plain_request _ = False"

fun message_of :: "cli_option list \<Rightarrow> PipeData \<Rightarrow> PipeData" where
  "message_of [] data = data"
| "message_of (OptAmbient # rest) data = message_of rest (data\<lparr>ambient_mode := True\<rparr>)"
| "message_of (OptSet n # rest) data = message_of rest (data\<lparr>brightness_adjustment := n\<rparr>)"
| "message_of (_ # rest) data = message_of rest data"

text \<open>The message of an invocation with no option.\<close>

definition no_request :: PipeData where
  "no_request = \<lparr>brightness_adjustment = 0, ambient_mode = False\<rparr>"

text \<open>A screen at 10 of 175, and a daemon there that has one percent to add.\<close>

definition dim_world :: world where
  "dim_world = daemon_world\<lparr>max_brightness_file := Holds 175, actual_brightness_file := Holds 10\<rparr>"

definition low_step_locals :: locals where
  "low_step_locals = idle_locals\<lparr>v_brightness_adjustment := 1, v_max_screen_brightness := 175\<rparr>"

text \<open>The screen at 90 and at 100 of 100.\<close>

definition bright_world :: world where
  "bright_world = daemon_world\<lparr>actual_brightness_file := Holds 90\<rparr>"

definition full_world :: world where
  "full_world = daemon_world\<lparr>actual_brightness_file := Holds 100\<rparr>"

text \<open>The variables of a daemon in ambient mode.\<close>

definition ambient_locals :: locals where
  "ambient_locals = idle_locals\<lparr>v_ambient_mode := True\<rparr>"

section \<open>Writing the brightness\<close>

lemma clamp_brightness_range:
  "1 \<le> max_brightness \<Longrightarrow>
     1 \<le> clamp_brightness brightness max_brightness \<and>
     clamp_brightness brightness max_brightness \<le> max_brightness"
  by (simp add: clamp_brightness_def)

lemma clamp_brightness_eq:
  "1 \<le> max_brightness \<Longrightarrow>
     clamp_brightness brightness max_brightness = max 1 (min max_brightness brightness)"
  by (simp add: clamp_brightness_def)

lemma set_backlight_brightness_writable:
  "brightness_writable w \<Longrightarrow>
     set_backlight_brightness brightness max_brightness w =
       Inr (w\<lparr>brightness_file :=
                brightness_file w @ [clamp_brightness brightness max_brightness]\<rparr>)"
  by (simp add: set_backlight_brightness_def)

lemma set_backlight_brightness_Inr:
  "set_backlight_brightness brightness max_brightness w = Inr w' \<Longrightarrow>
     brightness_writable w \<and>
     w' = w\<lparr>brightness_file :=
              brightness_file w @ [clamp_brightness brightness max_brightness]\<rparr>"
  by (simp add: set_backlight_brightness_def split: if_splits)

text \<open>
  C3, as the code has it: whenever the maximum is at least 1 and the brightness file can
  be written, \<open>set_backlight_brightness\<close> writes one value, and that value lies between 1
  and the maximum, whatever brightness was requested.
\<close>

theorem set_backlight_brightness_within_range:
  assumes "1 \<le> max_brightness" and "brightness_writable w"
  shows "\<exists>b. set_backlight_brightness brightness max_brightness w =
               Inr (w\<lparr>brightness_file := brightness_file w @ [b]\<rparr>)
             \<and> 1 \<le> b \<and> b \<le> max_brightness"
proof (intro exI conjI)
  show "set_backlight_brightness brightness max_brightness w =
          Inr (w\<lparr>brightness_file :=
                   brightness_file w @ [clamp_brightness brightness max_brightness]\<rparr>)"
    using assms(2) by (rule set_backlight_brightness_writable)
  show "1 \<le> clamp_brightness brightness max_brightness"
    and "clamp_brightness brightness max_brightness \<le> max_brightness"
    using clamp_brightness_range [OF assms(1)] by simp_all
qed

theorem set_backlight_brightness_within_range_witness:
  "(1::int) \<le> 100 \<and> brightness_writable daemon_world \<and>
   (\<exists>b. set_backlight_brightness (- 7) 100 daemon_world =
          Inr (daemon_world\<lparr>brightness_file := brightness_file daemon_world @ [b]\<rparr>)
        \<and> 1 \<le> b \<and> b \<le> 100)"
proof -
  have m: "(1::int) \<le> 100" by simp
  have wr: "brightness_writable daemon_world" by (simp add: daemon_world_def)
  from set_backlight_brightness_within_range [OF m wr, of "- 7"] m wr show ?thesis by blast
qed

text \<open>
  C3 as stated fails for a maximum below 1: with the maximum 0 a request for 5 writes 0,
  which is below 1.
\<close>

theorem set_backlight_brightness_zero_max:
  "set_backlight_brightness 5 0 daemon_world = Inr (daemon_world\<lparr>brightness_file := [0]\<rparr>)
   \<and> \<not> (1 \<le> (0::int) \<and> (0::int) \<le> 0)"
  by (simp add: set_backlight_brightness_def clamp_brightness_def daemon_world_def)

section \<open>The control loop\<close>

subsection \<open>Ambient mode is a toggle\<close>

lemma loop_read_ambient_mode:
  "v_ambient_mode (fst (loop_read v w)) = (v_ambient_mode v \<noteq> toggles (fst (read_fifo w)))"
  by (cases "read_fifo w") (auto simp: loop_read_def toggles_def Let_def split: option.splits)

lemma loop_adjust_ambient_mode:
  "loop_adjust v w = Inr (v', w') \<Longrightarrow> v_ambient_mode v' = v_ambient_mode v"
  by (auto simp: loop_adjust_def split: if_splits sum.splits)

lemma loop_body_ambient_mode:
  assumes "loop_body v w = Inr (v', w')"
  shows "v_ambient_mode v' = (v_ambient_mode v \<noteq> toggles (fst (read_fifo w)))"
proof -
  obtain v1 w1 where r: "loop_read v w = (v1, w1)" by (cases "loop_read v w")
  with assms obtain w2 where a: "loop_adjust v1 w1 = Inr (v', w2)"
    by (auto simp: loop_body_def split: sum.splits)
  have "v_ambient_mode v1 = (v_ambient_mode v \<noteq> toggles (fst (read_fifo w)))"
    using loop_read_ambient_mode [of v w] r by simp
  with loop_adjust_ambient_mode [OF a] show ?thesis by simp
qed

text \<open>
  C1: after a run of the loop, whatever happens to the world between the iterations,
  ambient mode is its initial value flipped once for every message read whose
  \<open>ambient_mode\<close> field is true. An iteration that reads nothing, and a message whose
  field is false, are not counted: they leave ambient mode as it is.
\<close>

theorem ambient_mode_parity:
  assumes "run_loop during v w = Inr (v', w', reads)"
  shows "v_ambient_mode v' = (v_ambient_mode v \<noteq> odd (length (filter toggles reads)))"
  using assms
proof (induction during arbitrary: v w reads)
  case Nil
  then show ?case by simp
next
  case (Cons during_sleep rest)
  from Cons.prems obtain v1 w1 where b: "loop_body v w = Inr (v1, w1)"
    by (auto split: sum.splits)
  with Cons.prems obtain reads' where r: "run_loop rest v1 (during_sleep w1) = Inr (v', w', reads')"
    and rs: "reads = fst (read_fifo w) # reads'"
    by (auto split: sum.splits)
  from Cons.IH [OF r] loop_body_ambient_mode [OF b] rs show ?case by auto
qed

text \<open>
  Three iterations on the three messages: one of them asks for the flip, and ambient
  mode, off at the start, is on at the end.
\<close>

theorem ambient_mode_parity_witness:
  "run_loop [\<lambda>w. w, \<lambda>w. w, \<lambda>w. w] idle_locals (daemon_world\<lparr>fifo_data := three_messages\<rparr>) =
     Inr (idle_locals\<lparr>v_ambient_mode := True\<rparr>,
          daemon_world\<lparr>brightness_file := [60, 10, 40, 10, 10], slept := 3\<rparr>,
          map Some three_messages) \<and>
   v_ambient_mode (idle_locals\<lparr>v_ambient_mode := True\<rparr>) =
     (v_ambient_mode idle_locals \<noteq> odd (length (filter toggles (map Some three_messages))))"
proof -
  have r: "run_loop [\<lambda>w. w, \<lambda>w. w, \<lambda>w. w] idle_locals
             (daemon_world\<lparr>fifo_data := three_messages\<rparr>) =
           Inr (idle_locals\<lparr>v_ambient_mode := True\<rparr>,
                daemon_world\<lparr>brightness_file := [60, 10, 40, 10, 10], slept := 3\<rparr>,
                map Some three_messages)"
    by code_simp
  from ambient_mode_parity [OF r] r show ?thesis by blast
qed

subsection \<open>What an iteration keeps and what it resets\<close>

text \<open>
  The configuration and the maximum are never assigned in the loop, and no adjustment is
  pending after an iteration.
\<close>

lemma loop_body_keeps:
  assumes "loop_body v w = Inr (v', w')"
  shows "v_config v' = v_config v \<and> v_max_screen_brightness v' = v_max_screen_brightness v"
proof -
  obtain v1 w1 where r: "loop_read v w = (v1, w1)" by (cases "loop_read v w")
  then have 1: "v_config v1 = v_config v \<and> v_max_screen_brightness v1 = v_max_screen_brightness v"
    by (auto simp: loop_read_def Let_def split: prod.splits option.splits if_splits)
  from assms r obtain w2 where a: "loop_adjust v1 w1 = Inr (v', w2)"
    by (auto simp: loop_body_def split: sum.splits)
  then have "v_config v' = v_config v1 \<and> v_max_screen_brightness v' = v_max_screen_brightness v1"
    by (auto simp: loop_adjust_def split: if_splits sum.splits)
  with 1 show ?thesis by simp
qed

lemma run_loop_keeps:
  "run_loop during v w = Inr (v', w', reads) \<Longrightarrow>
     v_config v' = v_config v \<and> v_max_screen_brightness v' = v_max_screen_brightness v"
proof (induction during arbitrary: v w reads)
  case Nil
  then show ?case by simp
next
  case (Cons during_sleep rest)
  from Cons.prems obtain v1 w1 where b: "loop_body v w = Inr (v1, w1)"
    by (auto split: sum.splits)
  with Cons.prems obtain reads' where r: "run_loop rest v1 (during_sleep w1) = Inr (v', w', reads')"
    by (auto split: sum.splits)
  from Cons.IH [OF r] loop_body_keeps [OF b] show ?case by simp
qed

lemma loop_body_resets:
  assumes "loop_body v w = Inr (v', w')"
  shows "v_brightness_adjustment v' = 0"
proof -
  obtain v1 w1 where r: "loop_read v w = (v1, w1)" by (cases "loop_read v w")
  with assms obtain w2 where a: "loop_adjust v1 w1 = Inr (v', w2)"
    by (auto simp: loop_body_def split: sum.splits)
  then show ?thesis by (auto simp: loop_adjust_def split: if_splits sum.splits)
qed

subsection \<open>An iteration with nothing to do\<close>

text \<open>
  C9: an iteration in which \<open>read_fifo\<close> returns no message, with no adjustment pending
  and ambient mode off, succeeds, leaves every variable of the daemon as it was and
  writes nothing to the brightness file.
\<close>

theorem idle_iteration_changes_nothing:
  assumes "fst (read_fifo w) = None"
    and "v_brightness_adjustment v = 0"
    and "\<not> v_ambient_mode v"
  shows "\<exists>w'. loop_body v w = Inr (v, w') \<and> brightness_file w' = brightness_file w"
proof -
  obtain w1 where r: "read_fifo w = (None, w1)" using assms(1) by (cases "read_fifo w") auto
  have b: "brightness_file w1 = brightness_file w"
    using r by (auto simp: read_fifo_def read_fd_def say_def split: if_splits list.splits)
  have "loop_body v w = Inr (v, sleep (update_rate (v_config v)) w1)"
    using r assms(2,3) by (simp add: loop_body_def loop_read_def loop_adjust_def loop_ambient_def)
  with b show ?thesis by (simp add: sleep_def)
qed

theorem idle_iteration_changes_nothing_witness:
  "fst (read_fifo daemon_world) = None \<and> v_brightness_adjustment idle_locals = 0 \<and>
   \<not> v_ambient_mode idle_locals \<and>
   (\<exists>w'. loop_body idle_locals daemon_world = Inr (idle_locals, w') \<and>
         brightness_file w' = brightness_file daemon_world)"
proof -
  have 1: "fst (read_fifo daemon_world) = None"
    by (simp add: read_fifo_def read_fd_def daemon_world_def)
  have 2: "v_brightness_adjustment idle_locals = 0" and 3: "\<not> v_ambient_mode idle_locals"
    by (simp_all add: idle_locals_def)
  from idle_iteration_changes_nothing [OF 1 2 3] 1 2 3 show ?thesis by blast
qed

text \<open>
  C6: when \<open>read\<close> returns 0, \<open>read_fifo\<close> returns \<open>NULL\<close> and prints nothing, the first
  step of the iteration changes neither the variables nor the world, and the iteration
  is exactly its other three steps: the pending adjustment, ambient mode and the sleep.
\<close>

theorem empty_read_is_no_command:
  assumes "malloc_ok w" and "fst (read_fd w) = 0"
  shows "read_fifo w = (None, w) \<and> loop_read v w = (v, w) \<and>
         loop_body v w =
           (case loop_adjust v w of
              Inl e \<Rightarrow> Inl e
            | Inr (v2, w2) \<Rightarrow>
                (case loop_ambient v2 w2 of
                   Inl e \<Rightarrow> Inl e
                 | Inr w3 \<Rightarrow> Inr (v2, sleep (update_rate (v_config v2)) w3)))"
proof -
  have r: "read_fifo w = (None, w)"
    using assms by (auto simp: read_fifo_def read_fd_def split: list.splits if_splits)
  then have l: "loop_read v w = (v, w)" by (simp add: loop_read_def)
  from r l show ?thesis by (simp add: loop_body_def)
qed

theorem empty_read_is_no_command_witness:
  "malloc_ok daemon_world \<and> fst (read_fd daemon_world) = 0 \<and>
   read_fifo daemon_world = (None, daemon_world) \<and>
   loop_read idle_locals daemon_world = (idle_locals, daemon_world) \<and>
   loop_body idle_locals daemon_world = Inr (idle_locals, daemon_world\<lparr>slept := 1\<rparr>)"
proof -
  have 1: "malloc_ok daemon_world" by (simp add: daemon_world_def)
  have 2: "fst (read_fd daemon_world) = 0" by (simp add: read_fd_def daemon_world_def)
  have 3: "(case loop_adjust idle_locals daemon_world of
              Inl e \<Rightarrow> Inl e
            | Inr (v2, w2) \<Rightarrow>
                (case loop_ambient v2 w2 of
                   Inl e \<Rightarrow> Inl e
                 | Inr w3 \<Rightarrow> Inr (v2, sleep (update_rate (v_config v2)) w3))) =
           Inr (idle_locals, daemon_world\<lparr>slept := 1\<rparr>)"
    by (simp add: loop_adjust_def loop_ambient_def sleep_def idle_locals_def sample_config_def
        daemon_world_def)
  from empty_read_is_no_command [OF 1 2, of idle_locals] 1 2 3 show ?thesis by simp
qed

section \<open>Rounding and truncation\<close>

text \<open>Both are symmetric about zero.\<close>

lemma trunc_minus: "trunc (- r) = - trunc r"
  by (cases "r = 0") (auto simp: trunc_def)

lemma fl_minus: "fl (- x) = (case fl x of Fin y \<Rightarrow> Fin (- y) | NonFin \<Rightarrow> NonFin)"
proof (cases "x = 0")
  case True
  then show ?thesis by (simp add: fl_def)
next
  case False
  define e where "e = max (ilog2 \<bar>x\<bar>) (- 1022)"
  define m where "m = rne (\<bar>x\<bar> / power_int 2 (e - 52))"
  have 1: "fl x = (if 1024 \<le> e \<or> (e = 1023 \<and> m = 2 ^ 53) then NonFin
                   else Fin (sgn x * (of_int m * power_int 2 (e - 52))))"
    unfolding fl_def Let_def e_def m_def using False by (simp only: if_False)
  have 2: "fl (- x) = (if 1024 \<le> e \<or> (e = 1023 \<and> m = 2 ^ 53) then NonFin
                   else Fin (sgn (- x) * (of_int m * power_int 2 (e - 52))))"
    unfolding fl_def Let_def e_def m_def using False
    by (simp only: abs_minus_cancel neg_equal_0_iff_equal if_False)
  show ?thesis by (simp add: 1 2)
qed

text \<open>\<open>ilog2\<close> is the binary exponent.\<close>

lemma ilog2_lower:
  assumes "0 < a"
  shows "power_int 2 (ilog2 a) \<le> a"
proof (cases "1 \<le> a")
  case True
  let ?n = "\<lfloor>a\<rfloor>"
  from True have n: "0 < ?n" by linarith
  from bitlen_bounds [OF n] have b: "2 ^ nat (bitlen ?n - 1) \<le> ?n" by simp
  from n have "1 \<le> bitlen ?n" by (simp add: bitlen_alt_def)
  then have "power_int (2::rat) (bitlen ?n - 1) = 2 ^ nat (bitlen ?n - 1)"
    by (simp add: power_int_def)
  also have "\<dots> = of_int (2 ^ nat (bitlen ?n - 1))" by simp
  also have "\<dots> \<le> of_int ?n" using b by (simp only: of_int_le_iff)
  also have "\<dots> \<le> a" by simp
  finally show ?thesis using True by (simp add: ilog2_def)
next
  case False
  let ?n = "\<lceil>1 / a\<rceil> - 1"
  from False assms have "1 < 1 / a" by simp
  then have n: "0 < ?n" by linarith
  from bitlen_bounds [OF n] have "?n < 2 ^ nat (bitlen ?n)" by simp
  then have "\<lceil>1 / a\<rceil> \<le> 2 ^ nat (bitlen ?n)" by simp
  then have "(of_int \<lceil>1 / a\<rceil> :: rat) \<le> of_int (2 ^ nat (bitlen ?n))"
    by (simp only: of_int_le_iff)
  then have c: "(of_int \<lceil>1 / a\<rceil> :: rat) \<le> 2 ^ nat (bitlen ?n)"
    by (simp only: of_int_power of_int_numeral)
  have "1 / a \<le> of_int \<lceil>1 / a\<rceil>" by (rule le_of_int_ceiling)
  with c have "1 / a \<le> 2 ^ nat (bitlen ?n)" by linarith
  with assms have "1 / 2 ^ nat (bitlen ?n) \<le> a"
    by (simp add: field_simps)
  moreover have "power_int (2::rat) (- bitlen ?n) = 1 / 2 ^ nat (bitlen ?n)"
    using bitlen_nonneg [of ?n] by (simp add: power_int_def field_simps)
  ultimately show ?thesis using False by (simp add: ilog2_def)
qed

lemma ilog2_less:
  assumes "0 < a"
  shows "a < power_int 2 (ilog2 a + 1)"
proof (cases "1 \<le> a")
  case True
  let ?n = "\<lfloor>a\<rfloor>"
  from True have n: "0 < ?n" by linarith
  from bitlen_bounds [OF n] have "?n + 1 \<le> 2 ^ nat (bitlen ?n)" by simp
  then have "(of_int (?n + 1) :: rat) \<le> of_int (2 ^ nat (bitlen ?n))"
    by (simp only: of_int_le_iff)
  then have "(of_int ?n :: rat) + 1 \<le> 2 ^ nat (bitlen ?n)" by simp
  moreover have "a < of_int ?n + 1" by linarith
  ultimately have "a < 2 ^ nat (bitlen ?n)" by linarith
  moreover have "power_int (2::rat) (bitlen ?n - 1 + 1) = 2 ^ nat (bitlen ?n)"
    using bitlen_nonneg [of ?n] by (simp add: power_int_def)
  ultimately show ?thesis using True by (simp add: ilog2_def)
next
  case False
  let ?n = "\<lceil>1 / a\<rceil> - 1"
  from False assms have "1 < 1 / a" by simp
  then have n: "0 < ?n" by linarith
  then have k: "1 \<le> bitlen ?n" by (simp add: bitlen_alt_def)
  from bitlen_bounds [OF n] have "2 ^ nat (bitlen ?n - 1) \<le> ?n" by simp
  then have "(of_int (2 ^ nat (bitlen ?n - 1)) :: rat) \<le> of_int ?n"
    by (simp only: of_int_le_iff)
  then have "(2 ^ nat (bitlen ?n - 1) :: rat) \<le> of_int ?n" by simp
  moreover have "of_int ?n < 1 / a" by linarith
  ultimately have "(2 ^ nat (bitlen ?n - 1) :: rat) < 1 / a" by linarith
  with assms have "a * 2 ^ nat (bitlen ?n - 1) < 1"
    by (simp add: field_simps)
  then have "a < 1 / 2 ^ nat (bitlen ?n - 1)" by (simp add: field_simps)
  moreover have "power_int (2::rat) (- bitlen ?n + 1) = 1 / 2 ^ nat (bitlen ?n - 1)"
  proof (cases "bitlen ?n = 1")
    case True
    then show ?thesis by simp
  next
    case False
    with k have "- bitlen ?n + 1 < 0" by simp
    then show ?thesis
      by (simp add: power_int_def field_simps nat_diff_distrib) 
  qed
  ultimately show ?thesis using False by (simp add: ilog2_def)
qed

text \<open>
  The error of a rounding: at most half a unit in the last place, which is at most
  \<open>2 ^ - 53\<close> of the magnitude, or half the spacing \<open>2 ^ - 1074\<close> of the subnormal numbers.
\<close>

lemma rne_error: "\<bar>of_int (rne z) - z\<bar> \<le> 1 / 2"
proof -
  have "of_int \<lfloor>z\<rfloor> \<le> z" "z < of_int \<lfloor>z\<rfloor> + 1" by linarith+
  then show ?thesis by (auto simp: rne_def Let_def)
qed

lemma fl_error:
  assumes "fl x = Fin y"
  shows "\<bar>y - x\<bar> \<le> \<bar>x\<bar> / 2 ^ 53 + 1 / 2 ^ 60"
proof (cases "x = 0")
  case True
  with assms show ?thesis by (simp add: fl_def)
next
  case False
  define a where "a = \<bar>x\<bar>"
  define e where "e = max (ilog2 a) (- 1022)"
  define u :: rat where "u = power_int 2 (e - 52)"
  define m where "m = rne (a / u)"
  have a: "0 < a" using False by (simp add: a_def)
  have u: "0 < u" by (simp add: u_def)
  have "fl x = (if 1024 \<le> e \<or> (e = 1023 \<and> m = 2 ^ 53) then NonFin
                else Fin (sgn x * (of_int m * u)))"
    unfolding fl_def Let_def e_def m_def u_def a_def using False by (simp only: if_False)
  with assms have y: "y = sgn x * (of_int m * u)" by (simp split: if_splits)
  have "sgn x * a = x" by (simp add: a_def sgn_mult_abs)
  then have "y - x = sgn x * (of_int m * u) - sgn x * a" by (simp add: y)
  also have "\<dots> = sgn x * (of_int m * u - a)" by (simp only: right_diff_distrib)
  finally have "\<bar>y - x\<bar> = \<bar>of_int m * u - a\<bar>"
    using False by (simp add: abs_mult abs_sgn_eq)
  also have "of_int m * u - a = (of_int m - a / u) * u" using u by (simp add: field_simps)
  also have "\<bar>\<dots>\<bar> = \<bar>of_int m - a / u\<bar> * u" using u by (simp add: abs_mult)
  also have "\<dots> \<le> 1 / 2 * u"
    using rne_error [of "a / u"] u unfolding m_def by (intro mult_right_mono) simp_all
  finally have err: "\<bar>y - x\<bar> \<le> u / 2" by simp
  have "u / 2 \<le> a / 2 ^ 53 + 1 / 2 ^ 60"
  proof (cases "- 1022 \<le> ilog2 a")
    case True
    then have "e = ilog2 a" by (simp add: e_def)
    then have "u = power_int 2 (ilog2 a) / 2 ^ 52"
      by (simp add: u_def power_int_diff)
    with ilog2_lower [OF a] have "u \<le> a / 2 ^ 52" by (simp add: divide_right_mono)
    then have "u / 2 \<le> a / 2 ^ 53" by simp
    then show ?thesis by simp
  next
    case False
    then have "e = - 1022" by (simp add: e_def)
    then have "u = power_int 2 (- 1074)" by (simp add: u_def)
    also have "\<dots> \<le> power_int 2 (- 59)"
      by (rule power_int_increasing) simp_all
    finally have "u \<le> 1 / 2 ^ 59" by (simp add: power_int_def field_simps)
    then have "u / 2 \<le> 1 / 2 ^ 60" by simp
    with a show ?thesis by (simp add: add_increasing)
  qed
  with err show ?thesis by (simp add: a_def)
qed

text \<open>A result below \<open>2 ^ 64\<close> in magnitude does not overflow.\<close>

lemma ilog2_upper:
  assumes "0 < a" and "a < 2 ^ n"
  shows "ilog2 a < int n"
proof (cases "1 \<le> a")
  case True
  have "of_int \<lfloor>a\<rfloor> \<le> a" by simp
  with assms(2) have "(of_int \<lfloor>a\<rfloor> :: rat) < 2 ^ n" by linarith
  then have "(of_int \<lfloor>a\<rfloor> :: rat) < of_int (2 ^ n)" by simp
  then have "\<lfloor>a\<rfloor> < 2 ^ n" by (simp only: of_int_less_iff)
  then have "bitlen \<lfloor>a\<rfloor> \<le> int n" by (simp add: bitlen_le_iff_power)
  with True show ?thesis by (simp add: ilog2_def)
next
  case False
  from False assms have "1 < 1 / a" by simp
  then have "0 < \<lceil>1 / a\<rceil> - 1" by linarith
  then have "1 \<le> bitlen (\<lceil>1 / a\<rceil> - 1)" by (simp add: bitlen_alt_def)
  with False show ?thesis by (simp add: ilog2_def)
qed

lemma fl_finite:
  assumes "\<bar>x\<bar> < 2 ^ 64"
  shows "\<exists>y. fl x = Fin y"
proof (cases "x = 0")
  case True
  then show ?thesis by (simp add: fl_def)
next
  case False
  then have "0 < \<bar>x\<bar>" by simp
  from ilog2_upper [OF this assms] have "max (ilog2 \<bar>x\<bar>) (- 1022) < 64" by simp
  then have "\<not> (1024 \<le> max (ilog2 \<bar>x\<bar>) (- 1022) \<or>
       max (ilog2 \<bar>x\<bar>) (- 1022) = 1023 \<and>
       rne (\<bar>x\<bar> / power_int 2 (max (ilog2 \<bar>x\<bar>) (- 1022) - 52)) = 2 ^ 53)"
    by linarith
  then show ?thesis
    unfolding fl_def Let_def using False by (simp only: if_False) blast
qed

text \<open>
  An integer of at most 53 bits is a double, and rounding leaves it alone; so the
  conversion of an \<open>int\<close> is exact.
\<close>

lemma rne_of_int: "rne (of_int k) = k"
  by (simp add: rne_def)

lemma fl_of_int:
  assumes "\<bar>n\<bar> < 2 ^ 53"
  shows "fl (of_int n) = Fin (of_int n)"
proof (cases "n = 0")
  case True
  then show ?thesis by (simp add: fl_def)
next
  case False
  define a :: rat where "a = \<bar>of_int n\<bar>"
  define e where "e = ilog2 a"
  have a: "a = of_int \<bar>n\<bar>" by (simp add: a_def)
  have a1: "1 \<le> a" using False by (simp add: a_def)
  then have a0: "0 < a" by simp
  have "a < 2 ^ 53"
  proof -
    from assms have "(of_int \<bar>n\<bar> :: rat) < of_int (2 ^ 53)" by (simp only: of_int_less_iff)
    then show ?thesis by (simp add: a)
  qed
  from ilog2_upper [OF a0 this] have e53: "e < 53" by (simp add: e_def)
  have e0: "0 \<le> e"
  proof -
    from a1 have "0 < \<lfloor>a\<rfloor>" by linarith
    then have "1 \<le> bitlen \<lfloor>a\<rfloor>" by (simp add: bitlen_alt_def)
    with a1 show ?thesis by (simp add: e_def ilog2_def)
  qed
  then have emax: "max e (- 1022) = e" by simp
  have u: "power_int (2::rat) (e - 52) = 1 / 2 ^ nat (52 - e)"
    using e53 by (cases "e = 52") (simp_all add: power_int_def field_simps)
  have "a / power_int 2 (e - 52) = of_int (\<bar>n\<bar> * 2 ^ nat (52 - e))"
    by (simp add: u a)
  then have m: "rne (a / power_int 2 (e - 52)) = \<bar>n\<bar> * 2 ^ nat (52 - e)"
    by (simp only: rne_of_int)
  have "fl (of_int n) = Fin (sgn (of_int n) * (of_int (\<bar>n\<bar> * 2 ^ nat (52 - e)) * power_int 2 (e - 52)))"
    unfolding fl_def Let_def a_def [symmetric] e_def [symmetric] emax m
    using False e53 by simp
  also have "of_int (\<bar>n\<bar> * 2 ^ nat (52 - e)) * power_int (2::rat) (e - 52) = a"
    by (simp add: u a)
  also have "sgn (of_int n) * a = of_int n" by (simp add: a_def sgn_mult_abs)
  finally show ?thesis .
qed

lemma fl_bound:
  assumes "\<bar>x\<bar> < 2 ^ 64"
  obtains y where "fl x = Fin y" and "\<bar>y - x\<bar> \<le> \<bar>x\<bar> / 2 ^ 53 + 1 / 2 ^ 60"
  using fl_finite [OF assms] fl_error by blast

lemma trunc_bounds:
  assumes "- 1 < r" and "r < of_int k + 1" and "0 \<le> k"
  shows "0 \<le> trunc r \<and> trunc r \<le> k"
proof (cases "0 \<le> r")
  case True
  with assms(2) show ?thesis by (simp add: trunc_def floor_less_iff[symmetric] floor_le_iff)
next
  case False
  with assms(1) have "\<lfloor>- r\<rfloor> = 0" by (simp add: floor_eq_iff)
  with False assms(3) show ?thesis by (simp add: trunc_def)
qed

text \<open>
  A percentage of a maximum: for a maximum that is not negative and a percentage between
  0 and 100, \<open>(int)((max / 100.0) * percent)\<close> is defined and lies between 0 and the maximum.
\<close>

lemma scale_percent_percentage:
  assumes "0 \<le> mx" and "is_int mx" and "0 \<le> p" and "p \<le> 100"
  shows "\<exists>m. scale_percent mx p = Inr m \<and> 0 \<le> m \<and> m \<le> mx"
proof -
  define x1 :: rat where "x1 = of_int mx / 100"
  have mx: "(of_int mx :: rat) \<le> 2147483647" "(0::rat) \<le> of_int mx"
    using assms(1,2) by (simp_all add: is_int_def INT_MAX_def)
  then have x1: "0 \<le> x1" "x1 \<le> 21474837" by (simp_all add: x1_def)
  have p: "(0::rat) \<le> of_int p" "(of_int p :: rat) \<le> 100"
    using assms(3,4) by simp_all
  have "\<bar>x1\<bar> < 2 ^ 64" using x1 by simp
  then obtain q where q: "fl x1 = Fin q"
    and qe: "\<bar>q - x1\<bar> \<le> \<bar>x1\<bar> / 2 ^ 53 + 1 / 2 ^ 60"
    by (rule fl_bound)
  from qe x1 have "\<bar>q - x1\<bar> \<le> x1 / 9007199254740992 + 1 / 1152921504606846976"
    by simp
  with x1 have "q \<le> x1 + x1 / 9007199254740992 + 1 / 1152921504606846976"
    and "- (1 / 1152921504606846976) \<le> q"
    by linarith+
  then have q1: "q \<le> x1 + x1 / 2 ^ 53 + 1 / 2 ^ 60" and q0: "- (1 / 2 ^ 60) \<le> q"
    by simp_all
  define x2 :: rat where "x2 = q * of_int p"
  have x2u: "x2 \<le> (x1 + x1 / 2 ^ 53 + 1 / 2 ^ 60) * 100"
  proof -
    have "x2 \<le> (x1 + x1 / 2 ^ 53 + 1 / 2 ^ 60) * of_int p"
      unfolding x2_def using q1 p(1) by (rule mult_right_mono)
    also have "\<dots> \<le> (x1 + x1 / 2 ^ 53 + 1 / 2 ^ 60) * 100"
      using p(2) x1(1) by (intro mult_left_mono) simp_all
    finally show ?thesis .
  qed
  have x2l: "- (1 / 2 ^ 60) * 100 \<le> x2"
  proof -
    have "- (1 / 2 ^ 60) * (100::rat) \<le> - (1 / 2 ^ 60) * of_int p"
      using p(2) by simp
    also have "\<dots> \<le> x2"
      unfolding x2_def using q0 p(1) by (rule mult_right_mono)
    finally show ?thesis .
  qed
  from x2u x2l x1
  have x2a: "\<bar>x2\<bar> \<le> x1 * 100 + x1 * 100 / 9007199254740992 + 100 / 1152921504606846976"
    by (simp add: algebra_simps)
  with x1 have "\<bar>x2\<bar> < 18446744073709551616" by linarith
  then have "\<bar>x2\<bar> < 2 ^ 64" by simp
  then obtain r where r: "fl x2 = Fin r"
    and re: "\<bar>r - x2\<bar> \<le> \<bar>x2\<bar> / 2 ^ 53 + 1 / 2 ^ 60"
    by (rule fl_bound)
  from re have "\<bar>r - x2\<bar> \<le> \<bar>x2\<bar> / 9007199254740992 + 1 / 1152921504606846976"
    by simp
  moreover from x2l have "- (100 / 1152921504606846976) \<le> x2" by simp
  ultimately have ru: "r < x1 * 100 + 1" and rl: "- 1 < r"
    using x2a x1 by linarith+
  from ru have "r < of_int mx + 1" by (simp add: x1_def)
  from trunc_bounds [OF rl this assms(1)] have t: "0 \<le> trunc r" "trunc r \<le> mx" by simp_all
  with assms(2) have "is_int (trunc r)" by (simp add: is_int_def INT_MIN_def)
  with q r have "scale_percent mx p = Inr (trunc r)"
    by (simp add: scale_percent_def int_to_double_def cast_int_def x1_def x2_def)
  with t show ?thesis by simp
qed

lemma scale_percent_Inr:
  "scale_percent mx d = Inr t \<longleftrightarrow>
     (\<exists>r. dmul (ddiv (int_to_double mx) (Fin 100)) (int_to_double d) = Fin r
          \<and> is_int (trunc r) \<and> t = trunc r)"
  by (auto simp: scale_percent_def cast_int_def split: double.splits)

lemma scale_percent_is_int: "scale_percent mx d = Inr t \<Longrightarrow> is_int t"
  by (auto simp: scale_percent_Inr)

lemma scale_percent_minus:
  assumes "scale_percent mx d = Inr t" and "is_int (- t)"
  shows "scale_percent mx (- d) = Inr (- t)"
proof -
  obtain q where q: "ddiv (int_to_double mx) (Fin 100) = q" by simp
  show ?thesis
  proof (cases q)
    case NonFin
    with assms(1) q show ?thesis
      by (simp add: scale_percent_def cast_int_def)
  next
    case (Fin a)
    with assms(1) q obtain r where r: "fl (a * of_int d) = Fin r" and t: "t = trunc r"
      by (auto simp: scale_percent_def cast_int_def int_to_double_def
          split: double.splits if_splits)
    have "fl (a * of_int (- d)) = Fin (- r)"
      using fl_minus [of "a * of_int d"] r by simp
    with Fin q t assms(2) show ?thesis
      by (simp add: scale_percent_def cast_int_def int_to_double_def trunc_minus)
  qed
qed

text \<open>Values used in the runs below.\<close>

lemma fl_7_4: "fl (175 / 100) = Fin (7 / 4)" by code_simp

lemma fl_7_4_again: "fl (7 / 4) = Fin (7 / 4)" by code_simp

lemma trunc_7_4: "trunc (7 / 4) = 1" by code_simp

lemma dmul_3_2: "dmul (int_to_double 3) (Fin 2) = Fin 6" by code_simp

lemma scale_percent_100_10: "scale_percent 100 10 = Inr 10" by code_simp

lemma scale_percent_100_50: "scale_percent 100 50 = Inr 50" by code_simp

lemma scale_percent_100_minus_50: "scale_percent 100 (- 50) = Inr (- 50)" by code_simp

section \<open>Adjusting the brightness by a percentage\<close>

lemma adjust_brightness_eq:
  assumes "actual_brightness_file w = Holds current" and "is_int current"
    and "scale_percent mx d = Inr t" and "is_int (current + t)"
    and "brightness_writable w"
  shows "adjust_brightness d mx config w =
           Inr (w\<lparr>brightness_file := brightness_file w @ [clamp_brightness (current + t) mx]\<rparr>)"
  using assms
  by (simp add: adjust_brightness_def read_file_def add_int_def set_backlight_brightness_writable)

lemma loop_adjust_resets:
  "loop_adjust v w = Inr (v', w') \<Longrightarrow> v_brightness_adjustment v' = 0"
  by (auto simp: loop_adjust_def split: if_splits sum.splits)

text \<open>
  C2, as the code has it: when an adjustment is pending, the current brightness can be
  read, the product \<open>(max_screen_brightness / 100.0) * brightness_adjustment\<close> is the
  double \<open>r\<close>, its integer part and the sum with the current brightness are \<open>int\<close>s, the
  maximum is at least 1 and the brightness file can be written, then the loop writes the
  current brightness plus \<open>r\<close> with its fraction dropped (truncated towards zero, not
  rounded), clamped to between 1 and the maximum, and the pending adjustment is 0 afterwards.
\<close>

theorem pending_delta_applied:
  assumes "v_brightness_adjustment v \<noteq> 0"
    and "actual_brightness_file w = Holds current" and "is_int current"
    and "dmul (ddiv (int_to_double (v_max_screen_brightness v)) (Fin 100))
           (int_to_double (v_brightness_adjustment v)) = Fin r"
    and "is_int (trunc r)" and "is_int (current + trunc r)"
    and "1 \<le> v_max_screen_brightness v" and "brightness_writable w"
  shows "loop_adjust v w =
           Inr (v\<lparr>v_brightness_adjustment := 0\<rparr>,
                w\<lparr>brightness_file := brightness_file w @
                    [max 1 (min (v_max_screen_brightness v) (current + trunc r))]\<rparr>)"
proof -
  have "scale_percent (v_max_screen_brightness v) (v_brightness_adjustment v) = Inr (trunc r)"
    using assms(4,5) by (simp add: scale_percent_Inr)
  from adjust_brightness_eq [OF assms(2,3) this assms(6,8)] assms(1,7) show ?thesis
    by (simp add: loop_adjust_def clamp_brightness_eq)
qed

text \<open>One percent of 175 is 1.75: the screen at 10 goes to 11.\<close>

theorem pending_delta_applied_witness:
  "loop_adjust low_step_locals dim_world =
     Inr (low_step_locals\<lparr>v_brightness_adjustment := 0\<rparr>, dim_world\<lparr>brightness_file := [11]\<rparr>)"
proof -
  have 1: "v_brightness_adjustment low_step_locals \<noteq> 0"
    and 7: "1 \<le> v_max_screen_brightness low_step_locals"
    by (simp_all add: low_step_locals_def)
  have 2: "actual_brightness_file dim_world = Holds 10" and 8: "brightness_writable dim_world"
    by (simp_all add: dim_world_def daemon_world_def)
  have 3: "is_int 10" by (simp add: is_int_def INT_MIN_def INT_MAX_def)
  have 4: "dmul (ddiv (int_to_double (v_max_screen_brightness low_step_locals)) (Fin 100))
             (int_to_double (v_brightness_adjustment low_step_locals)) = Fin (7 / 4)"
    by (simp add: low_step_locals_def int_to_double_def fl_7_4 fl_7_4_again)
  have 5: "is_int (trunc (7 / 4))" and 6: "is_int (10 + trunc (7 / 4))"
    by (simp_all add: trunc_7_4 is_int_def INT_MIN_def INT_MAX_def)
  have 9: "brightness_file dim_world = []" by (simp add: dim_world_def daemon_world_def)
  from pending_delta_applied [OF 1 2 3 4 5 6 7 8] show ?thesis
    by (simp add: low_step_locals_def trunc_7_4 9)
qed

text \<open>
  C2 as stated fails there: 1.75 rounds to 2 and the claim's value is 12, but the loop
  writes 11.
\<close>

theorem pending_delta_not_rounded:
  "loop_adjust low_step_locals dim_world =
     Inr (low_step_locals\<lparr>v_brightness_adjustment := 0\<rparr>, dim_world\<lparr>brightness_file := [11]\<rparr>) \<and>
   dmul (ddiv (int_to_double 175) (Fin 100)) (int_to_double 1) = Fin (7 / 4) \<and>
   max 1 (min 175 (10 + round (7 / 4 :: rat))) = (12 :: int)"
  by code_simp

text \<open>
  When the first adjustment does not run into the clamp (the current brightness plus the
  truncated percentage lies between 1 and the maximum) and the device then reports the
  brightness just written, both adjustments are carried out and the opposite one writes
  exactly the clamped starting brightness.
\<close>

lemma delta_round_trip_unclamped:
  assumes "1 \<le> mx" and "is_int mx"
    and "actual_brightness_file w = Holds start" and "is_int start"
    and "brightness_writable w"
    and "scale_percent mx d = Inr t"
    and "1 \<le> start + t" and "start + t \<le> mx"
    and "actual_brightness_file w2 = Holds (start + t)" and "brightness_writable w2"
  shows "adjust_brightness d mx config w =
           Inr (w\<lparr>brightness_file := brightness_file w @ [start + t]\<rparr>) \<and>
         adjust_brightness (- d) mx config w2 =
           Inr (w2\<lparr>brightness_file := brightness_file w2 @ [clamp_brightness start mx]\<rparr>)"
proof -
  have s: "is_int (start + t)"
    using assms(2,7,8) by (simp add: is_int_def INT_MIN_def)
  have "adjust_brightness d mx config w =
          Inr (w\<lparr>brightness_file := brightness_file w @ [clamp_brightness (start + t) mx]\<rparr>)"
    using assms(3,4,6) s assms(5) by (rule adjust_brightness_eq)
  moreover have "clamp_brightness (start + t) mx = start + t"
    using assms(7,8) by (simp add: clamp_brightness_def)
  ultimately have first: "adjust_brightness d mx config w =
      Inr (w\<lparr>brightness_file := brightness_file w @ [start + t]\<rparr>)"
    by simp
  have "is_int (- t)"
    using assms(4,7) scale_percent_is_int [OF assms(6)]
    by (simp add: is_int_def INT_MIN_def INT_MAX_def)
  with assms(6) have m: "scale_percent mx (- d) = Inr (- t)" by (rule scale_percent_minus)
  have "is_int (start + t + - t)" using assms(4) by simp
  from adjust_brightness_eq [OF assms(9) s m this assms(10)]
  have "adjust_brightness (- d) mx config w2 =
          Inr (w2\<lparr>brightness_file := brightness_file w2 @ [clamp_brightness start mx]\<rparr>)"
    by simp
  with first show ?thesis by simp
qed

lemma clamp_brightness_lipschitz:
  "1 \<le> mx \<Longrightarrow> \<bar>clamp_brightness x mx - clamp_brightness y mx\<bar> \<le> \<bar>x - y\<bar>"
  by (simp add: clamp_brightness_def)

lemma scale_percent_opposite:
  assumes "scale_percent mx d = Inr t" and "scale_percent mx (- d) = Inr t'"
  shows "t' = - t"
proof -
  obtain q where q: "ddiv (int_to_double mx) (Fin 100) = q" by simp
  show ?thesis
  proof (cases q)
    case NonFin
    with assms(1) q show ?thesis by (simp add: scale_percent_def cast_int_def)
  next
    case (Fin a)
    with assms(1) q obtain r where r: "fl (a * of_int d) = Fin r" and t: "t = trunc r"
      by (auto simp: scale_percent_def cast_int_def int_to_double_def
          split: double.splits if_splits)
    have "fl (a * of_int (- d)) = Fin (- r)"
      using fl_minus [of "a * of_int d"] r by simp
    with Fin q assms(2) have "t' = trunc (- r)"
      by (auto simp: scale_percent_def cast_int_def int_to_double_def split: if_splits)
    with t show ?thesis by (simp add: trunc_minus)
  qed
qed

lemma adjust_brightness_Inr:
  assumes "adjust_brightness d mx config w = Inr w'"
  shows "\<exists>current t. actual_brightness_file w = Holds current \<and> is_int current \<and>
           scale_percent mx d = Inr t \<and> is_int (current + t) \<and> brightness_writable w \<and>
           w' = w\<lparr>brightness_file :=
                    brightness_file w @ [clamp_brightness (current + t) mx]\<rparr>"
  using assms
  by (auto simp: adjust_brightness_def read_file_def add_int_def
      dest!: set_backlight_brightness_Inr split: sum.splits sysfile.splits if_splits)

text \<open>
  C7, as the code has it: let the maximum be at least 1 and let both adjustments be
  carried out, the second one on the brightness that the first one wrote, as the device
  reports it. Then the brightness written last differs from the clamped starting
  brightness by no more than the first write was clamped by: it is within one unit when
  the first write was clamped by at most one, and equal when it was not clamped.
\<close>

theorem delta_round_trip:
  assumes "1 \<le> mx"
    and "actual_brightness_file w = Holds start"
    and "scale_percent mx d = Inr t"
    and "adjust_brightness d mx config w = Inr w'"
    and "actual_brightness_file w2 = Holds (last (brightness_file w'))"
    and "adjust_brightness (- d) mx config w2 = Inr w2'"
  shows "\<exists>b1 b2. brightness_file w' = brightness_file w @ [b1] \<and>
           brightness_file w2' = brightness_file w2 @ [b2] \<and>
           \<bar>b2 - clamp_brightness start mx\<bar> \<le> \<bar>b1 - (start + t)\<bar>"
proof -
  let ?b1 = "clamp_brightness (start + t) mx"
  from adjust_brightness_Inr [OF assms(4)] assms(2,3)
  have w': "w' = w\<lparr>brightness_file := brightness_file w @ [?b1]\<rparr>" by auto
  then have l: "last (brightness_file w') = ?b1" by simp
  from adjust_brightness_Inr [OF assms(6)] assms(5) l obtain t' where
      t': "scale_percent mx (- d) = Inr t'"
    and w2': "w2' = w2\<lparr>brightness_file :=
                brightness_file w2 @ [clamp_brightness (?b1 + t') mx]\<rparr>"
    by auto
  from scale_percent_opposite [OF assms(3) t'] have "t' = - t" .
  with clamp_brightness_lipschitz [OF assms(1), of "?b1 + t'" start]
  have "\<bar>clamp_brightness (?b1 + t') mx - clamp_brightness start mx\<bar> \<le> \<bar>?b1 - (start + t)\<bar>"
    by (simp add: algebra_simps)
  with w' w2' show ?thesis by simp
qed

text \<open>From 50 of 100, ten percent up and ten percent down: 60, then 50 again.\<close>

theorem delta_round_trip_witness:
  "adjust_brightness 10 100 sample_config daemon_world =
     Inr (daemon_world\<lparr>brightness_file := [60]\<rparr>) \<and>
   adjust_brightness (- 10) 100 sample_config
      (daemon_world\<lparr>actual_brightness_file := Holds 60, brightness_file := [60]\<rparr>) =
     Inr (daemon_world\<lparr>actual_brightness_file := Holds 60, brightness_file := [60, 50]\<rparr>) \<and>
   (\<exists>b1 b2. [60] = [] @ [b1] \<and> [60, 50] = [60] @ [b2] \<and>
       \<bar>b2 - clamp_brightness 50 100\<bar> \<le> \<bar>b1 - (50 + 10)\<bar>)"
proof -
  let ?w2 = "daemon_world\<lparr>actual_brightness_file := Holds 60, brightness_file := [60]\<rparr>"
  let ?w' = "daemon_world\<lparr>brightness_file := [60]\<rparr>"
  let ?w2' = "daemon_world\<lparr>actual_brightness_file := Holds 60, brightness_file := [60, 50]\<rparr>"
  have 1: "(1::int) \<le> 100" by simp
  have 2: "actual_brightness_file daemon_world = Holds 50" by (simp add: daemon_world_def)
  have m: "scale_percent 100 (- 10) = Inr (- 10)" by code_simp
  have 4: "adjust_brightness 10 100 sample_config daemon_world = Inr ?w'"
    by (simp add: adjust_brightness_def read_file_def add_int_def set_backlight_brightness_def
        clamp_brightness_def scale_percent_100_10 daemon_world_def is_int_def INT_MIN_def
        INT_MAX_def)
  have 5: "actual_brightness_file ?w2 = Holds (last (brightness_file ?w'))" by simp
  have 6: "adjust_brightness (- 10) 100 sample_config ?w2 = Inr ?w2'"
    by (simp add: adjust_brightness_def read_file_def add_int_def set_backlight_brightness_def
        clamp_brightness_def m daemon_world_def is_int_def INT_MIN_def INT_MAX_def)
  have b: "brightness_file ?w' = [60]" "brightness_file daemon_world = []"
    "brightness_file ?w2' = [60, 50]" "brightness_file ?w2 = [60]"
    by (simp_all add: daemon_world_def)
  from delta_round_trip [OF 1 2 scale_percent_100_10 4 5 6] 4 6 show ?thesis
    unfolding b by simp
qed

text \<open>
  C7 as stated fails when the first adjustment is clamped: from 90 of 100, fifty percent
  up gives 100 and fifty percent down gives 50, which is 40 away from 90.
\<close>

theorem delta_round_trip_saturates:
  "adjust_brightness 50 100 sample_config bright_world =
     Inr (bright_world\<lparr>brightness_file := [100]\<rparr>) \<and>
   adjust_brightness (- 50) 100 sample_config full_world =
     Inr (full_world\<lparr>brightness_file := [50]\<rparr>) \<and>
   clamp_brightness 90 100 = 90 \<and> \<not> \<bar>50 - clamp_brightness 90 100\<bar> \<le> 1"
  by (simp add: adjust_brightness_def read_file_def add_int_def set_backlight_brightness_def
      clamp_brightness_def scale_percent_100_50 scale_percent_100_minus_50 bright_world_def
      full_world_def daemon_world_def is_int_def INT_MIN_def INT_MAX_def)

section \<open>Ambient mode\<close>

text \<open>
  When \<open>main\<close> enters the loop, the maximum is the \<open>int\<close> read from
  \<^verbatim>\<open>max_brightness\<close> and \<open>config.min_brightness\<close> is the configured percentage of it.
\<close>

lemma parse_options_keeps:
  "parse_options b opts v w = Inr (v', w') \<Longrightarrow>
     v_config v' = v_config v \<and> v_max_screen_brightness v' = v_max_screen_brightness v"
proof (induction b opts v w rule: parse_options.induct)
  case (4 pid_file_open rest v w)
  then show ?case by (auto split: if_splits sum.splits)
qed auto

lemma main_enters_loop:
  assumes "main opts w = Inr (v, w')"
  shows "\<exists>config. config_file w = Some config \<and> v_daemon_mode v \<and>
           is_int (v_max_screen_brightness v) \<and>
           scale_percent (v_max_screen_brightness v) (min_brightness config) =
             Inr (min_brightness (v_config v))"
proof -
  from assms obtain config where c: "config_file w = Some config"
    by (auto simp: main_def split: option.splits)
  let ?v0 = "\<lparr>v_ambient_mode = False, v_brightness_adjustment = 0,
                v_daemon_mode = False, v_print_status = False,
                v_config = config, v_max_screen_brightness = 0\<rparr>"
  from assms c obtain v1 w1 where p: "parse_options (pid_file w \<noteq> Missing) opts ?v0 w = Inr (v1, w1)"
    by (auto simp: main_def Let_def split: sum.splits)
  from parse_options_keeps [OF p] have k: "v_config v1 = config" by simp
  from assms c p obtain w2 mx m where
      mx: "read_file (max_brightness_file w2) w2 = Inr mx"
    and m: "scale_percent mx (min_brightness (v_config v1)) = Inr m"
    and r: "main_rest (pid_file w \<noteq> Missing)
              (v1\<lparr>v_config := (v_config v1)\<lparr>min_brightness := m\<rparr>,
                  v_max_screen_brightness := mx\<rparr>) w2 = Inr (v, w')"
    by (auto simp: main_def Let_def split: sum.splits if_splits)
  from r have v: "v = v1\<lparr>v_config := (v_config v1)\<lparr>min_brightness := m\<rparr>,
                         v_max_screen_brightness := mx\<rparr>" and d: "v_daemon_mode v"
    by (auto simp: main_rest_def split: sum.splits if_splits)
  from mx have "is_int mx" by (auto simp: read_file_def split: sysfile.splits if_splits)
  with c k m v d show ?thesis by simp
qed

text \<open>
  C5: let the maximum be an \<open>int\<close> that is not negative and the configured minimum a
  percentage between 0 and 100, converted as \<open>main\<close> does at startup. Whatever the sensor
  reads and whatever the factor is, a step of ambient mode that writes at all writes one
  value, and it is at least the converted minimum.
\<close>

theorem ambient_never_below_minimum:
  assumes "0 \<le> mx" and "is_int mx" and "0 \<le> p" and "p \<le> 100"
    and "scale_percent mx p = Inr m"
    and "v_ambient_mode v" and "v_max_screen_brightness v = mx"
    and "min_brightness (v_config v) = m"
    and "loop_ambient v w = Inr w'"
  shows "\<exists>b. brightness_file w' = brightness_file w @ [b] \<and> m \<le> b"
proof -
  from scale_percent_percentage [OF assms(1-4)] assms(5) have m: "m \<le> mx" by auto
  from assms(6,9) obtain tmp where
    w': "set_backlight_brightness (if tmp > min_brightness (v_config v) then tmp
           else min_brightness (v_config v)) (v_max_screen_brightness v) w = Inr w'"
    by (auto simp: loop_ambient_def Let_def split: sum.splits)
  let ?b = "if tmp > m then tmp else m"
  from set_backlight_brightness_Inr [OF w'] assms(7,8)
  have "brightness_file w' = brightness_file w @ [clamp_brightness ?b mx]" by simp
  moreover have "m \<le> clamp_brightness ?b mx"
    using m by (simp add: clamp_brightness_def)
  ultimately show ?thesis by blast
qed

text \<open>The sensor reads 3, the factor is 2, the minimum 10 percent of 100: 10 is written.\<close>

theorem ambient_never_below_minimum_witness:
  "loop_ambient ambient_locals daemon_world = Inr (daemon_world\<lparr>brightness_file := [10]\<rparr>) \<and>
   (\<exists>b. brightness_file (daemon_world\<lparr>brightness_file := [10]\<rparr>) =
          brightness_file daemon_world @ [b] \<and> 10 \<le> b)"
proof -
  have 1: "(0::int) \<le> 100" and 2: "is_int 100" and 3: "(0::int) \<le> 10" and 4: "(10::int) \<le> 100"
    by (simp_all add: is_int_def INT_MIN_def INT_MAX_def)
  have 6: "v_ambient_mode ambient_locals" and 7: "v_max_screen_brightness ambient_locals = 100"
    and 8: "min_brightness (v_config ambient_locals) = 10"
    by (simp_all add: ambient_locals_def idle_locals_def sample_config_def)
  have 9: "loop_ambient ambient_locals daemon_world = Inr (daemon_world\<lparr>brightness_file := [10]\<rparr>)"
    by (simp add: loop_ambient_def ambient_locals_def idle_locals_def sample_config_def
        daemon_world_def read_file_def is_int_def INT_MIN_def INT_MAX_def dmul_3_2 cast_int_def
        trunc_def set_backlight_brightness_def clamp_brightness_def)
  from ambient_never_below_minimum [OF 1 2 3 4 scale_percent_100_10 6 7 8 9] 9
  show ?thesis by simp
qed

section \<open>Starting and stopping the daemon\<close>

text \<open>
  C4: the handler installed by \<open>start_daemon\<close> for \<open>SIGTERM\<close> and \<open>SIGINT\<close> removes the PID
  file and exits; the FIFO is still there when the process has exited. Here the daemon is
  started where neither node exists and then receives either signal.
\<close>

theorem signal_handler_leaves_fifo:
  "start_daemon fresh_world = Inr started_world \<and>
   deliver_signal SIGTERM started_world = Exit 0 (started_world\<lparr>pid_file := Missing\<rparr>) \<and>
   deliver_signal SIGINT started_world = Exit 0 (started_world\<lparr>pid_file := Missing\<rparr>) \<and>
   pid_file (started_world\<lparr>pid_file := Missing\<rparr>) = Missing \<and>
   fifo_node (started_world\<lparr>pid_file := Missing\<rparr>)"
  by (simp add: start_daemon_def deliver_signal_def signal_handler_def remove_pid_file_def
      started_world_def fresh_world_def daemon_world_def Let_def)

lemma signal_handler_fifo_node:
  "signal_handler sig w = Exit c w' \<Longrightarrow> fifo_node w' = fifo_node w"
  by (auto simp: signal_handler_def remove_pid_file_def say_def split: if_splits)

lemma stop_daemon_Missing:
  "pid_file w = Missing \<Longrightarrow> stop_daemon w = say ''Error opening the PID file'' w"
  by (simp add: stop_daemon_def)

lemma stop_daemon_Garbage:
  "pid_file w = Garbage \<Longrightarrow> \<not> stdio_null w \<Longrightarrow>
     stop_daemon w =
       (if fifo_node w
        then w\<lparr>out := out w @ [''Invalid PID file content''], pid_file := Missing,
               fifo_node := False\<rparr>
        else w\<lparr>out := out w @ [''Invalid PID file content'', ''Error removing the PID file''],
               pid_file := Missing, fifo_node := False\<rparr>)"
  by (simp add: stop_daemon_def say_def remove_pid_file_def remove_fifo_def Let_def)

lemma main_kill:
  "config_file w = Some config \<Longrightarrow> main (OptKill # rest) w = Inl (Exit 0 (stop_daemon w))"
  by (simp add: main_def Let_def)

text \<open>
  C8: when the PID file is missing or holds no number, \<open>stop_daemon\<close> sends no signal and
  prints what went wrong (on streams that are not \<^verbatim>\<open>/dev/null\<close>), and \<open>main\<close>, having
  read its configuration, exits with status 0 on \<^verbatim>\<open>-k\<close>.
\<close>

theorem stop_daemon_without_pid:
  assumes "pid_file w = Missing \<or> pid_file w = Garbage"
    and "\<not> stdio_null w"
    and "config_file w = Some config"
  shows "signals_sent (stop_daemon w) = signals_sent w \<and>
         (\<exists>more. out (stop_daemon w) =
            out w @ (if pid_file w = Missing then ''Error opening the PID file''
                     else ''Invalid PID file content'') # more) \<and>
         main (OptKill # rest) w = Inl (Exit 0 (stop_daemon w))"
proof -
  from assms(1) show ?thesis
  proof
    assume m: "pid_file w = Missing"
    with assms(2) main_kill [OF assms(3)] show ?thesis
      by (simp add: stop_daemon_Missing say_def)
  next
    assume g: "pid_file w = Garbage"
    with assms(2) main_kill [OF assms(3)] show ?thesis
      by (simp add: stop_daemon_Garbage)
  qed
qed

text \<open>Once with the PID file missing, once with a PID file that holds no number.\<close>

theorem stop_daemon_without_pid_witness:
  "(pid_file fresh_world = Missing \<or> pid_file fresh_world = Garbage) \<and>
   \<not> stdio_null fresh_world \<and> config_file fresh_world = Some sample_config \<and>
   signals_sent (stop_daemon fresh_world) = signals_sent fresh_world \<and>
   out (stop_daemon fresh_world) = [''Error opening the PID file''] \<and>
   main [OptKill] fresh_world = Inl (Exit 0 (stop_daemon fresh_world)) \<and>
   signals_sent (stop_daemon (daemon_world\<lparr>pid_file := Garbage\<rparr>)) = [] \<and>
   out (stop_daemon (daemon_world\<lparr>pid_file := Garbage\<rparr>)) = [''Invalid PID file content''] \<and>
   main [OptKill] (daemon_world\<lparr>pid_file := Garbage\<rparr>) =
     Inl (Exit 0 (stop_daemon (daemon_world\<lparr>pid_file := Garbage\<rparr>)))"
proof -
  let ?g = "daemon_world\<lparr>pid_file := Garbage\<rparr>"
  have 1: "pid_file fresh_world = Missing \<or> pid_file fresh_world = Garbage"
    and 2: "\<not> stdio_null fresh_world" and 3: "config_file fresh_world = Some sample_config"
    and 4: "out fresh_world = []" and 5: "pid_file fresh_world = Missing"
    by (simp_all add: fresh_world_def daemon_world_def)
  have g1: "pid_file ?g = Missing \<or> pid_file ?g = Garbage"
    and g2: "\<not> stdio_null ?g" and g3: "config_file ?g = Some sample_config"
    and g4: "out ?g = []" and g5: "pid_file ?g = Garbage" and g6: "fifo_node ?g"
    and g7: "signals_sent ?g = []"
    by (simp_all add: daemon_world_def)
  from stop_daemon_without_pid [OF 1 2 3, of "[]"] stop_daemon_without_pid [OF g1 g2 g3, of "[]"]
    1 2 3 4 5 g4 g5 g6 g7
  show ?thesis
    by (auto simp: stop_daemon_Missing stop_daemon_Garbage [OF g5 g2] say_def)
qed

section \<open>A request to the running daemon\<close>

lemma parse_options_plain:
  "list_all plain_request opts \<Longrightarrow>
     parse_options b opts v w =
       Inr (v\<lparr>v_ambient_mode :=
               ambient_mode (message_of opts \<lparr>brightness_adjustment = v_brightness_adjustment v,
                                             ambient_mode = v_ambient_mode v\<rparr>),
             v_brightness_adjustment :=
               brightness_adjustment (message_of opts
                 \<lparr>brightness_adjustment = v_brightness_adjustment v,
                  ambient_mode = v_ambient_mode v\<rparr>)\<rparr>, w)"
proof (induction opts arbitrary: v)
  case Nil
  then show ?case by simp
next
  case (Cons opt opts)
  then show ?case by (cases opt) simp_all
qed

lemma message_of_ambient_mode:
  "ambient_mode (message_of opts data) = (ambient_mode data \<or> OptAmbient \<in> set opts)"
  by (induction opts data rule: message_of.induct) auto

lemma message_of_no_set:
  "\<forall>n. OptSet n \<notin> set opts \<Longrightarrow>
     brightness_adjustment (message_of opts data) = brightness_adjustment data"
  by (induction opts data rule: message_of.induct) auto

lemma message_of_last_set:
  "brightness_adjustment (message_of (opts @ [OptSet n]) data) = n"
  by (induction opts data rule: message_of.induct) auto

lemma loop_read_message:
  assumes "malloc_ok d" and "fifo_data d = data # queue"
  shows "loop_read v d =
           (let v1 = v\<lparr>v_brightness_adjustment := brightness_adjustment data\<rparr>
            in if ambient_mode data then v1\<lparr>v_ambient_mode := \<not> v_ambient_mode v\<rparr> else v1,
            d\<lparr>fifo_data := queue\<rparr>)"
  using assms by (simp add: loop_read_def read_fifo_def read_fd_def Let_def)

text \<open>
  C10, as the code has it: while the PID file exists, an invocation whose options are all
  \<^verbatim>\<open>-a\<close> or \<^verbatim>\<open>-s n\<close>, and whose startup succeeds (the configuration names a sensor,
  \<^verbatim>\<open>max_brightness\<close> holds an \<open>int\<close>, the conversion of the minimum is defined, the FIFO
  exists and is being read), appends exactly one message to the FIFO and exits with
  status 0. With no option at all the message is \<open>{0, false}\<close>; a daemon that reads it
  sets its pending adjustment to 0, whatever it was, and leaves ambient mode alone.
\<close>

theorem client_sends_one_message:
  assumes "pid_file w \<noteq> Missing" and "config_file w = Some config"
    and "list_all plain_request opts"
    and "max_brightness_file w = Holds mx" and "is_int mx"
    and "scale_percent mx (min_brightness config) = Inr m"
    and "fifo_node w" and "fifo_reader w"
    and "malloc_ok d" and "fifo_data d = no_request # queue"
  shows "main opts w = Inl (Exit 0 (w\<lparr>fifo_data := fifo_data w @ [message_of opts no_request]\<rparr>)) \<and>
         main [] w = Inl (Exit 0 (w\<lparr>fifo_data := fifo_data w @ [no_request]\<rparr>)) \<and>
         loop_read v d = (v\<lparr>v_brightness_adjustment := 0\<rparr>, d\<lparr>fifo_data := queue\<rparr>)"
proof -
  have main: "main os w = Inl (Exit 0 (w\<lparr>fifo_data := fifo_data w @ [message_of os no_request]\<rparr>))"
    if "list_all plain_request os" for os
    using assms(1,2,4-8)
    by (simp add: main_def main_rest_def parse_options_plain [OF that] read_file_def
        write_fifo_def no_request_def Let_def)
  from main [OF assms(3)] main [of "[]"] loop_read_message [OF assms(9,10), of v]
  show ?thesis by (simp add: no_request_def)
qed

theorem client_sends_one_message_witness:
  "main [OptSet 5, OptAmbient] daemon_world =
     Inl (Exit 0 (daemon_world\<lparr>fifo_data := [\<lparr>brightness_adjustment = 5, ambient_mode = True\<rparr>]\<rparr>)) \<and>
   main [] daemon_world = Inl (Exit 0 (daemon_world\<lparr>fifo_data := [no_request]\<rparr>)) \<and>
   loop_read (idle_locals\<lparr>v_brightness_adjustment := 7\<rparr>) (daemon_world\<lparr>fifo_data := [no_request]\<rparr>) =
     (idle_locals, daemon_world)"
proof -
  let ?d = "daemon_world\<lparr>fifo_data := [no_request]\<rparr>"
  have 1: "pid_file daemon_world \<noteq> Missing"
    and 2: "config_file daemon_world = Some sample_config"
    and 4: "max_brightness_file daemon_world = Holds 100"
    and 7: "fifo_node daemon_world" and 8: "fifo_reader daemon_world"
    and 9: "malloc_ok ?d" and 10: "fifo_data ?d = no_request # []"
    by (simp_all add: daemon_world_def)
  have 3: "list_all plain_request [OptSet 5, OptAmbient]" by simp
  have 5: "is_int 100" by (simp add: is_int_def INT_MIN_def INT_MAX_def)
  have 6: "scale_percent 100 (min_brightness sample_config) = Inr 10"
    by (simp add: sample_config_def scale_percent_100_10)
  from client_sends_one_message [OF 1 2 3 4 5 6 7 8 9 10,
      of "idle_locals\<lparr>v_brightness_adjustment := 7\<rparr>"]
  show ?thesis by (simp add: no_request_def daemon_world_def idle_locals_def)
qed

text \<open>
  C10 as stated fails for an option that \<open>getopt_long\<close> does not know: none of
  \<^verbatim>\<open>-d\<close>, \<^verbatim>\<open>-k\<close>, \<^verbatim>\<open>-h\<close>, \<^verbatim>\<open>-p\<close> is given, and \<open>main\<close> returns 1 with nothing written.
\<close>

theorem unknown_option_sends_nothing:
  "pid_file daemon_world \<noteq> Missing \<and>
   main [OptUnknown] daemon_world = Inl (Exit 1 (daemon_world\<lparr>out := [''Unknown option'']\<rparr>)) \<and>
   fifo_data (daemon_world\<lparr>out := [''Unknown option'']\<rparr>) = fifo_data daemon_world"
  by (simp add: main_def say_def daemon_world_def Let_def)

end
